theory Spec2Isabelle
  imports Main "HOL-Library.Word"
begin

unbundle bit_operations_syntax

section \<open>JavaScript strings\<close>

text \<open>
  A JavaScript string is a sequence of UTF-16 code units. The literals of
  \<^verbatim>\<open>server.js\<close> are ASCII, so they are written as HOL strings and
  converted code unit by code unit.
\<close>

type_synonym jsstring = "16 word list"

definition ascii :: "string \<Rightarrow> jsstring" where
  "ascii s = map of_char s"

text \<open>
  \<^verbatim>\<open>String.prototype.trim\<close> and the class \<^verbatim>\<open>\s\<close> of a regular expression
  share one set: the WhiteSpace and LineTerminator code points of ECMAScript
  (TAB, LF, VT, FF, CR, SP, NBSP, U+1680, U+2000 to U+200A, LS, PS, U+202F,
  U+205F, U+3000 and the byte order mark). The dot of a regular expression
  without the \<^verbatim>\<open>s\<close> flag matches everything but the four line terminators.
\<close>

definition is_white :: "16 word \<Rightarrow> bool" where
  "is_white c \<longleftrightarrow>
     c = 0x09 \<or> c = 0x0A \<or> c = 0x0B \<or> c = 0x0C \<or> c = 0x0D \<or> c = 0x20 \<or>
     c = 0xA0 \<or> c = 0x1680 \<or> (0x2000 \<le> c \<and> c \<le> 0x200A) \<or>
     c = 0x2028 \<or> c = 0x2029 \<or> c = 0x202F \<or> c = 0x205F \<or> c = 0x3000 \<or>
     c = 0xFEFF"

definition is_line_terminator :: "16 word \<Rightarrow> bool" where
  "is_line_terminator c \<longleftrightarrow> c = 0x0A \<or> c = 0x0D \<or> c = 0x2028 \<or> c = 0x2029"

definition newline :: "16 word" where
  "newline = 0x0A"

definition asterisk :: "16 word" where
  "asterisk = 0x2A"

definition colon :: "16 word" where
  "colon = 0x3A"

definition trim :: "jsstring \<Rightarrow> jsstring" where
  "trim s = rev (dropWhile is_white (rev (dropWhile is_white s)))"

text \<open>
  With the flag \<^verbatim>\<open>i\<close> and without \<^verbatim>\<open>u\<close>, two code units match when their
  canonical forms agree. The canonical form is the upper case of the code unit,
  except that a code unit from 128 on is never mapped below 128. For the ASCII
  characters of the patterns of this file that means: a letter matches itself in
  either case, and nothing else does.
\<close>

definition upper_ascii :: "16 word \<Rightarrow> 16 word" where
  "upper_ascii c = (if 0x61 \<le> c \<and> c \<le> 0x7A then c - 0x20 else c)"

fun match_ci :: "jsstring \<Rightarrow> jsstring \<Rightarrow> jsstring option" where
  "match_ci [] s = Some s"
| "match_ci (p # ps) [] = None"
| "match_ci (p # ps) (c # cs) =
     (if upper_ascii c = upper_ascii p then match_ci ps cs else None)"

text \<open>An alternation tries its branches from left to right.\<close>

fun match_alt :: "jsstring list \<Rightarrow> (jsstring \<Rightarrow> jsstring option) \<Rightarrow> jsstring \<Rightarrow> jsstring option" where
  "match_alt [] k s = None"
| "match_alt (p # ps) k s =
     (case match_ci p s of
        None \<Rightarrow> match_alt ps k s
      | Some r \<Rightarrow> (case k r of None \<Rightarrow> match_alt ps k s | Some t \<Rightarrow> Some t))"

text \<open>
  \<^verbatim>\<open>.*?\<close> followed by a character \<open>stop\<close>: the lazy star gives up as few
  characters as it can, so the match ends at the first \<open>stop\<close>, and there is none
  when a line terminator (which the dot refuses) or the end of the input comes
  first. The result is what follows the match.
\<close>

fun lazy_dots_then :: "16 word \<Rightarrow> jsstring \<Rightarrow> jsstring option" where
  "lazy_dots_then stop [] = None"
| "lazy_dots_then stop (c # cs) =
     (if c = stop then Some cs
      else if is_line_terminator c then None
      else lazy_dots_then stop cs)"

section \<open>The response cleaner\<close>

text \<open>
  \<^verbatim>\<open>text.replace(/\*\*/g, "")\<close>: every pair of asterisks, found from left to
  right without overlap, is deleted; \<^verbatim>\<open>.replace(/\*/g, "")\<close> deletes what is left.
\<close>

fun remove_double_asterisks :: "jsstring \<Rightarrow> jsstring" where
  "remove_double_asterisks (a # b # cs) =
     (if a = asterisk \<and> b = asterisk then remove_double_asterisks cs
      else a # remove_double_asterisks (b # cs))"
| "remove_double_asterisks cs = cs"

definition remove_asterisks :: "jsstring \<Rightarrow> jsstring" where
  "remove_asterisks s = filter (\<lambda>c. c \<noteq> asterisk) s"

text \<open>
  \<^verbatim>\<open>text.replace(/^(Here's|Here is).*?:\s*/i, "")\<close>. The pattern has neither
  \<^verbatim>\<open>g\<close> nor \<^verbatim>\<open>m\<close>: only a match at the very start of the text is removed.
  The greedy \<^verbatim>\<open>\s*\<close> takes all the white space after the colon.
\<close>

definition match_intro :: "jsstring \<Rightarrow> jsstring option" where
  "match_intro s =
     match_alt [ascii ''Here's'', ascii ''Here is'']
       (\<lambda>r. map_option (dropWhile is_white) (lazy_dots_then colon r)) s"

definition remove_intro :: "jsstring \<Rightarrow> jsstring" where
  "remove_intro s = (case match_intro s of None \<Rightarrow> s | Some r \<Rightarrow> r)"

text \<open>
  \<^verbatim>\<open>text.replace(/^(Title|Poem):.*?\n/gi, "")\<close>. The flag \<^verbatim>\<open>g\<close> asks for every
  match, but without the flag \<^verbatim>\<open>m\<close> the assertion \<^verbatim>\<open>^\<close> holds at index 0 of
  the text only: there is at most one match, and it starts the text. The match
  needs its \<^verbatim>\<open>\n\<close>: a heading that is the whole text stays.
\<close>

definition match_heading :: "jsstring \<Rightarrow> jsstring option" where
  "match_heading s =
     match_alt [ascii ''Title'', ascii ''Poem'']
       (\<lambda>r. case match_ci [colon] r of None \<Rightarrow> None | Some t \<Rightarrow> lazy_dots_then newline t) s"

definition remove_headings :: "jsstring \<Rightarrow> jsstring" where
  "remove_headings s = (case match_heading s of None \<Rightarrow> s | Some r \<Rightarrow> r)"

text \<open>\<^verbatim>\<open>text.split("\n")\<close> and \<^verbatim>\<open>lines.join("\n")\<close>.\<close>

fun split_lines :: "jsstring \<Rightarrow> jsstring list" where
  "split_lines [] = [[]]"
| "split_lines (c # cs) =
     (if c = newline then [] # split_lines cs
      else (case split_lines cs of [] \<Rightarrow> [[c]] | l # ls \<Rightarrow> (c # l) # ls))"

fun join_lines :: "jsstring list \<Rightarrow> jsstring" where
  "join_lines [] = []"
| "join_lines [l] = l"
| "join_lines (l # ls) = l @ newline # join_lines ls"

definition cleanPoem :: "jsstring \<Rightarrow> jsstring" where
  "cleanPoem text0 =
     (let text1 = trim text0;
          text2 = remove_asterisks (remove_double_asterisks text1);
          text3 = remove_intro text2;
          text4 = remove_headings text3;
          lines0 = filter (\<lambda>line. length (trim line) > 0) (split_lines text4);
          lines1 = (if length lines0 > 5 then take 5 lines0 else lines0)
      in trim (join_lines lines1))"

text \<open>The lines that \<open>cleanPoem\<close> joins at its end.\<close>

definition poem_lines :: "jsstring \<Rightarrow> jsstring list" where
  "poem_lines text0 =
     (let text1 = trim text0;
          text2 = remove_asterisks (remove_double_asterisks text1);
          text3 = remove_intro text2;
          text4 = remove_headings text3;
          lines0 = filter (\<lambda>line. length (trim line) > 0) (split_lines text4)
      in if length lines0 > 5 then take 5 lines0 else lines0)"

text \<open>A line that \<open>split_lines\<close> can produce and the blank-line filter keeps.\<close>

definition solid :: "jsstring \<Rightarrow> bool" where
  "solid l \<longleftrightarrow> (\<exists>c \<in> set l. \<not> is_white c) \<and> newline \<notin> set l"

definition solid_lines :: "jsstring list \<Rightarrow> bool" where
  "solid_lines ls \<longleftrightarrow> (\<forall>l \<in> set ls. solid l)"

section \<open>JavaScript values\<close>

text \<open>
  The values the server handles. A data value is what \<^verbatim>\<open>JSON.parse\<close> yields
  (for the request body and for the remote service's answer) and what a string
  of the program is: null, a boolean, a number, a string, an array or a plain
  object of data values; none is callable. A number is its IEEE 754 binary64 bit
  pattern. The properties of a parsed object are kept in source order; of two
  properties of one name, \<^verbatim>\<open>JSON.parse\<close> keeps the later. Besides the data
  values there are \<^verbatim>\<open>undefined\<close> and the members that every object inherits
  from \<^verbatim>\<open>Object.prototype\<close>.
\<close>

datatype jsdata =
    JNull
  | JBool bool
  | JNum "64 word"
  | JStr jsstring
  | JArr "jsdata list"
  | JObj "(jsstring \<times> jsdata) list"

datatype jsval =
    JUndefined
  | JBuiltin jsstring
  | Data jsdata

text \<open>\<^verbatim>\<open>ToBoolean\<close>: false for undefined, null, false, +0, -0, NaN and the empty string.\<close>

fun truthy_data :: "jsdata \<Rightarrow> bool" where
  "truthy_data JNull = False"
| "truthy_data (JBool b) = b"
| "truthy_data (JNum w) =
     (\<not> (w AND 0x7FFFFFFFFFFFFFFF = 0 \<or> w AND 0x7FFFFFFFFFFFFFFF > 0x7FF0000000000000))"
| "truthy_data (JStr s) = (s \<noteq> [])"
| "truthy_data (JArr xs) = True"
| "truthy_data (JObj kvs) = True"

fun truthy :: "jsval \<Rightarrow> bool" where
  "truthy JUndefined = False"
| "truthy (JBuiltin n) = True"
| "truthy (Data d) = truthy_data d"

text \<open>
  What the \<^verbatim>\<open>catch\<close> block of the generation route can receive: a
  \<^verbatim>\<open>TypeError\<close> of the language, the \<^verbatim>\<open>Error\<close> that the handler throws on an
  answer of the wrong shape, or the error of a rejected \<^verbatim>\<open>axios.post\<close>, of
  which the block reads \<^verbatim>\<open>error.response\<close> (status and data, when the service
  answered) and \<^verbatim>\<open>error.code\<close>.
\<close>

datatype thrown =
    TypeError
  | FormatError
  | RequestError "(nat \<times> jsval) option" "jsstring option"

definition and_then :: "thrown + 'a \<Rightarrow> ('a \<Rightarrow> thrown + 'b) \<Rightarrow> thrown + 'b" where
  "and_then r k = (case r of Inl e \<Rightarrow> Inl e | Inr v \<Rightarrow> k v)"

text \<open>Evaluation from left to right, ended by the first throw.\<close>

fun in_order :: "(thrown + 'a) list \<Rightarrow> thrown + 'a list" where
  "in_order [] = Inr []"
| "in_order (r # rs) =
     (case r of
        Inl e \<Rightarrow> Inl e
      | Inr v \<Rightarrow> (case in_order rs of Inl e \<Rightarrow> Inl e | Inr vs \<Rightarrow> Inr (v # vs)))"

text \<open>
  The members of \<^verbatim>\<open>Object.prototype\<close> in Node.js. Each is a function, but
  \<^verbatim>\<open>__proto__\<close>, which reads as the prototype object itself; all are truthy.
\<close>

definition object_prototype_names :: "jsstring list" where
  "object_prototype_names = map ascii
     [''constructor'', ''hasOwnProperty'', ''isPrototypeOf'', ''propertyIsEnumerable'',
      ''toLocaleString'', ''toString'', ''valueOf'', ''__proto__'',
      ''__defineGetter__'', ''__defineSetter__'', ''__lookupGetter__'', ''__lookupSetter__'']"

fun join_commas :: "jsstring list \<Rightarrow> jsstring" where
  "join_commas [] = []"
| "join_commas [l] = l"
| "join_commas (l # ls) = l @ 0x2C # join_commas ls"

text \<open>
  \<^verbatim>\<open>ToPropertyKey\<close> of a value used in \<^verbatim>\<open>obj[value]\<close>, which for all but a
  string is its conversion to a string.
  \<^item> An array is converted by \<^verbatim>\<open>Array.prototype.toString\<close>: the conversions of
    its elements joined by commas, a null element giving the empty string.
  \<^item> An object is converted by its method \<^verbatim>\<open>toString\<close>, then by its method
    \<^verbatim>\<open>valueOf\<close>. Without an own property \<^verbatim>\<open>toString\<close> the method is the
    inherited one and gives \<^verbatim>\<open>[object Object]\<close>. An own property
    \<^verbatim>\<open>toString\<close> of a data object is not callable and hides the inherited
    method; \<^verbatim>\<open>valueOf\<close>, own or inherited, gives no primitive value either,
    and the conversion throws a \<^verbatim>\<open>TypeError\<close>.
  \<^item> The result \<open>None\<close> stands for a key that contains the decimal rendering of a
    number (digits, \<^verbatim>\<open>Infinity\<close> or \<^verbatim>\<open>NaN\<close>) or is the source text of a
    function: no property of this program has such a name.
  The limits of the engine (the depth of its stack on a deeply nested array) are
  not part of the model.
\<close>

fun data_key :: "jsdata \<Rightarrow> thrown + jsstring option" where
  "data_key JNull = Inr (Some (ascii ''null''))"
| "data_key (JBool b) = Inr (Some (ascii (if b then ''true'' else ''false'')))"
| "data_key (JNum w) = Inr None"
| "data_key (JStr s) = Inr (Some s)"
| "data_key (JArr xs) =
     (case in_order (map (\<lambda>x. if x = JNull then Inr (Some []) else data_key x) xs) of
        Inl e \<Rightarrow> Inl e
      | Inr keys \<Rightarrow> Inr (map_option join_commas (those keys)))"
| "data_key (JObj kvs) =
     (if map_of (rev kvs) (ascii ''toString'') = None then Inr (Some (ascii ''[object Object]''))
      else Inl TypeError)"

fun property_key :: "jsval \<Rightarrow> thrown + jsstring option" where
  "property_key JUndefined = Inr (Some (ascii ''undefined''))"
| "property_key (JBuiltin n) =
     Inr (if n = ascii ''__proto__'' then Some (ascii ''[object Object]'') else None)"
| "property_key (Data d) = data_key d"

text \<open>
  \<^verbatim>\<open>obj[key]\<close> on an object literal with the own properties \<open>own\<close>: the key is
  converted, then an own property is looked for, then the prototype chain, which
  for a literal is \<^verbatim>\<open>Object.prototype\<close>.
\<close>

definition object_literal_get :: "(jsstring \<times> jsval) list \<Rightarrow> jsval \<Rightarrow> thrown + jsval" where
  "object_literal_get own key =
     (case property_key key of
        Inl e \<Rightarrow> Inl e
      | Inr None \<Rightarrow> Inr JUndefined
      | Inr (Some name) \<Rightarrow>
          Inr (case map_of own name of
                 Some v \<Rightarrow> v
               | None \<Rightarrow> if name \<in> set object_prototype_names then JBuiltin name else JUndefined))"

section \<open>The prompt builder\<close>

definition themeContexts :: "jsstring \<Rightarrow> (jsstring \<times> jsval) list" where
  "themeContexts userInput =
     [(ascii ''lovelines'',
         Data (JStr (ascii ''You are a romantic poet. Write a beautiful, heartfelt love poem (exactly 5 lines) about: ''
               @ userInput @ ascii ''\<newline>Write the poem now:''))),
      (ascii ''moodverse'',
         Data (JStr (ascii ''You are an emotional poet. Write a deeply emotional poem (exactly 5 lines) that captures these feelings: ''
               @ userInput @ ascii ''\<newline>Write the poem now:''))),
      (ascii ''soulscript'',
         Data (JStr (ascii ''You are an inspirational poet. Write an uplifting, reflective affirmation poem (exactly 5 lines) about: ''
               @ userInput @ ascii ''\<newline>Write the poem now:'')))]"

text \<open>
  \<^verbatim>\<open>return themeContexts[theme] || themeContexts["moodverse"];\<close> The
  function throws when the conversion of \<open>theme\<close> to a property key does.
\<close>

definition buildPrompt :: "jsstring \<Rightarrow> jsval \<Rightarrow> thrown + jsval" where
  "buildPrompt userInput theme =
     and_then (object_literal_get (themeContexts userInput) theme) (\<lambda>chosen.
       if truthy chosen then Inr chosen
       else object_literal_get (themeContexts userInput) (Data (JStr (ascii ''moodverse''))))"

section \<open>The poem generation handler\<close>

text \<open>
  What a run of the server does that can be observed: lines written to the
  error console, the call to the remote service (with the prompt it sends) and
  the responses written. A JSON response is the status and the object handed to
  \<^verbatim>\<open>res.json\<close>; a property whose value is \<^verbatim>\<open>undefined\<close> is left out
  of the JSON text, so \<open>JUndefined\<close> as the theme of a poem payload means that the
  response has no theme.
\<close>

datatype payload =
    Health jsstring jsstring jsstring
  | Poem jsstring jsval jsstring
  | Failure jsstring "nat option"

datatype response =
    JsonResponse nat payload
  | StaticAsset jsstring
  | IndexDocument
  | NoContent
  | DefaultNotFound

datatype event =
    ConsoleError jsstring
  | RemotePost jsval
  | Respond response

datatype remote_result =
    Resolved jsval
  | Rejected "(nat \<times> jsval) option" "jsstring option"

text \<open>
  The surroundings of a request: the credential of \<^verbatim>\<open>process.env\<close>, the remote
  service as the outcome of the one call \<^verbatim>\<open>axios.post\<close> (which settles, by
  its timeout of 30 seconds at the latest) for each prompt, the clock,
  and which request paths \<^verbatim>\<open>express.static\<close> serves from \<^verbatim>\<open>public\<close>.
\<close>

record environment =
  GEMINI_API_KEY :: "jsstring option"
  remote :: "jsval \<Rightarrow> remote_result"
  now :: jsstring
  static_asset :: "jsstring \<Rightarrow> bool"

text \<open>
  The properties that the handler reads by name. None of them is a member of a
  built-in prototype or an own property of an array, a string, a number or a
  boolean, so only a parsed object can have one; reading any property of
  \<^verbatim>\<open>undefined\<close> or \<^verbatim>\<open>null\<close> throws.
\<close>

datatype field = F_userInput | F_theme | F_candidates | F_content | F_parts | F_text

fun field_name :: "field \<Rightarrow> jsstring" where
  "field_name F_userInput = ascii ''userInput''"
| "field_name F_theme = ascii ''theme''"
| "field_name F_candidates = ascii ''candidates''"
| "field_name F_content = ascii ''content''"
| "field_name F_parts = ascii ''parts''"
| "field_name F_text = ascii ''text''"

fun get_field :: "field \<Rightarrow> jsval \<Rightarrow> thrown + jsval" where
  "get_field f JUndefined = Inl TypeError"
| "get_field f (Data JNull) = Inl TypeError"
| "get_field f (Data (JObj kvs)) =
     Inr (case map_of (rev kvs) (field_name f) of None \<Rightarrow> JUndefined | Some v \<Rightarrow> Data v)"
| "get_field f v = Inr JUndefined"

text \<open>\<^verbatim>\<open>value[0]\<close>: the first element of an array, the first code unit of a string,
  the property \<^verbatim>\<open>"0"\<close> of an object.\<close>

fun get_first :: "jsval \<Rightarrow> thrown + jsval" where
  "get_first JUndefined = Inl TypeError"
| "get_first (Data JNull) = Inl TypeError"
| "get_first (Data (JArr xs)) = Inr (case xs of [] \<Rightarrow> JUndefined | x # _ \<Rightarrow> Data x)"
| "get_first (Data (JStr s)) = Inr (case s of [] \<Rightarrow> JUndefined | c # _ \<Rightarrow> Data (JStr [c]))"
| "get_first (Data (JObj kvs)) =
     Inr (case map_of (rev kvs) (ascii ''0'') of None \<Rightarrow> JUndefined | Some v \<Rightarrow> Data v)"
| "get_first v = Inr JUndefined"

text \<open>
  The test of the answer's shape, each conjunct evaluated only when those before
  it are truthy, and the read of \<^verbatim>\<open>.text\<close> when all are.
\<close>

definition extract_text :: "jsval \<Rightarrow> thrown + jsval" where
  "extract_text data =
     and_then (get_field F_candidates data) (\<lambda>candidates.
       if \<not> truthy candidates then Inl FormatError else
     and_then (get_first candidates) (\<lambda>candidate.
       if \<not> truthy candidate then Inl FormatError else
     and_then (get_field F_content candidate) (\<lambda>content.
       if \<not> truthy content then Inl FormatError else
     and_then (get_field F_parts content) (\<lambda>parts.
       if \<not> truthy parts then Inl FormatError else
     and_then (get_first parts) (\<lambda>part.
       if \<not> truthy part then Inl FormatError else
     get_field F_text part)))))"

text \<open>
  \<^verbatim>\<open>cleanPoem(generatedPoem)\<close> on whatever \<^verbatim>\<open>.text\<close> was: only a string
  has a method \<^verbatim>\<open>trim\<close>, the call throws on every other value.
\<close>

fun cleanPoem_value :: "jsval \<Rightarrow> thrown + jsstring" where
  "cleanPoem_value (Data (JStr s)) = Inr (cleanPoem s)"
| "cleanPoem_value v = Inl TypeError"

definition ECONNABORTED :: jsstring where
  "ECONNABORTED = ascii ''ECONNABORTED''"

text \<open>The body of \<^verbatim>\<open>try\<close>: the events so far, and what was thrown if anything was.\<close>

definition generate_poem_try :: "environment \<Rightarrow> jsval \<Rightarrow> event list \<times> thrown option" where
  "generate_poem_try env body =
     (case get_field F_userInput body of Inl e \<Rightarrow> ([], Some e) | Inr userInput \<Rightarrow>
      case get_field F_theme body of Inl e \<Rightarrow> ([], Some e) | Inr theme \<Rightarrow>
      let rejected =
            ([Respond (JsonResponse 400
                (Failure (ascii ''Please provide your feelings or thoughts to generate a poem.'') None))],
             None)
      in
      if \<not> truthy userInput then rejected else
      case userInput of
        Data (JStr s) \<Rightarrow>
          if length (trim s) = 0 then rejected
          else if (case GEMINI_API_KEY env of None \<Rightarrow> True | Some k \<Rightarrow> k = []) then
            ([ConsoleError (ascii ''ERROR: GEMINI_API_KEY not found in .env file!''),
              Respond (JsonResponse 500
                (Failure (ascii ''Server configuration error. Please contact support.'') None))],
             None)
          else
            (case buildPrompt s theme of
               Inl e \<Rightarrow> ([], Some e)
             | Inr prompt \<Rightarrow>
                 (case remote env prompt of
                    Rejected resp code \<Rightarrow> ([RemotePost prompt], Some (RequestError resp code))
                  | Resolved data \<Rightarrow>
                      (case and_then (extract_text data) cleanPoem_value of
                         Inl e \<Rightarrow> ([RemotePost prompt], Some e)
                       | Inr generatedPoem \<Rightarrow>
                           ([RemotePost prompt,
                             Respond (JsonResponse 200 (Poem generatedPoem theme (now env)))],
                            None))))
      | _ \<Rightarrow> ([], Some TypeError))"

text \<open>The \<^verbatim>\<open>catch\<close> block. Of a line on the console only its fixed first
  argument is kept.\<close>

fun generate_poem_catch :: "thrown \<Rightarrow> event list" where
  "generate_poem_catch (RequestError (Some (status, errorData)) code) =
     [ConsoleError (ascii ''Error generating poem:''),
      ConsoleError (ascii ''Gemini API Error:''),
      Respond
        (if status = 400 then JsonResponse 400 (Failure (ascii ''Invalid request to AI service.'') None)
         else if status = 401 \<or> status = 403 then
           JsonResponse 500 (Failure (ascii ''Authentication failed.'') None)
         else if status = 429 then JsonResponse 429 (Failure (ascii ''Too many requests.'') (Some 10))
         else if status = 503 then JsonResponse 503 (Failure (ascii ''Service unavailable.'') (Some 20))
         else JsonResponse 500 (Failure (ascii ''Failed to generate poem.'') None))]"
| "generate_poem_catch (RequestError None code) =
     [ConsoleError (ascii ''Error generating poem:''),
      Respond
        (if code = Some ECONNABORTED then JsonResponse 504 (Failure (ascii ''Request timed out.'') None)
         else JsonResponse 500 (Failure (ascii ''An unexpected error occurred.'') None))]"
| "generate_poem_catch e =
     [ConsoleError (ascii ''Error generating poem:''),
      Respond (JsonResponse 500 (Failure (ascii ''An unexpected error occurred.'') None))]"

definition generate_poem :: "environment \<Rightarrow> jsval \<Rightarrow> event list" where
  "generate_poem env body =
     (case generate_poem_try env body of
        (events, None) \<Rightarrow> events
      | (events, Some e) \<Rightarrow> events @ generate_poem_catch e)"

fun responses :: "event list \<Rightarrow> response list" where
  "responses [] = []"
| "responses (Respond r # es) = r # responses es"
| "responses (e # es) = responses es"

fun remote_posts :: "event list \<Rightarrow> jsval list" where
  "remote_posts [] = []"
| "remote_posts (RemotePost p # es) = p # remote_posts es"
| "remote_posts (e # es) = remote_posts es"

section \<open>The application\<close>

text \<open>
  Express hands a request to the middleware and routes in the order of their
  registration; the first that answers ends the request, one that calls
  \<^verbatim>\<open>next\<close> passes it on. When the stack is exhausted Express answers 404
  itself. \<open>req_body\<close> is \<^verbatim>\<open>req.body\<close> as \<^verbatim>\<open>express.json()\<close> leaves it: the
  parsed object or array, and the empty object when there was nothing to parse
  (a body that does not parse is answered by Express before any route runs).
\<close>

datatype http_method = GET | HEAD | POST | OPTIONS | OtherMethod jsstring

record request =
  req_method :: http_method
  req_path :: jsstring
  req_body :: jsval

type_synonym layer = "request \<Rightarrow> event list option"

fun run_stack :: "layer list \<Rightarrow> request \<Rightarrow> event list" where
  "run_stack [] req = [Respond DefaultNotFound]"
| "run_stack (l # ls) req = (case l req of Some events \<Rightarrow> events | None \<Rightarrow> run_stack ls req)"

text \<open>
  A route path matches as Express compiles it by default: without regard to
  letter case and with an optional trailing slash. A route registered with
  \<^verbatim>\<open>app.get\<close> serves HEAD as well.
\<close>

definition route_match :: "string \<Rightarrow> jsstring \<Rightarrow> bool" where
  "route_match pattern p \<longleftrightarrow>
     map upper_ascii p = map upper_ascii (ascii pattern) \<or>
     map upper_ascii p = map upper_ascii (ascii pattern) @ ascii ''/''"

definition reads :: "http_method \<Rightarrow> bool" where
  "reads m \<longleftrightarrow> m = GET \<or> m = HEAD"

text \<open>\<^verbatim>\<open>app.use(cors())\<close>: a preflight is answered 204, anything else passes.\<close>

definition cors_layer :: layer where
  "cors_layer req = (if req_method req = OPTIONS then Some [Respond NoContent] else None)"

text \<open>\<^verbatim>\<open>app.use(express.json())\<close>: fills \<^verbatim>\<open>req.body\<close> and passes.\<close>

definition json_layer :: layer where
  "json_layer req = None"

text \<open>\<^verbatim>\<open>app.use(express.static(...))\<close>: a GET or HEAD of a path that the
  middleware serves from \<^verbatim>\<open>public\<close> (a file, a directory's \<^verbatim>\<open>index.html\<close>,
  or the redirect of a directory's path to the path with a slash) is answered by
  it; \<open>static_asset\<close> tells which paths these are.\<close>

definition static_layer :: "environment \<Rightarrow> layer" where
  "static_layer env req =
     (if reads (req_method req) \<and> static_asset env (req_path req)
      then Some [Respond (StaticAsset (req_path req))] else None)"

definition health_route :: "environment \<Rightarrow> layer" where
  "health_route env req =
     (if reads (req_method req) \<and> route_match ''/api/health'' (req_path req)
      then Some [Respond (JsonResponse 200
             (Health (ascii ''ok'') (ascii ''MuseMind backend is running with Gemini API!'') (now env)))]
      else None)"

definition generate_poem_route :: "environment \<Rightarrow> layer" where
  "generate_poem_route env req =
     (if req_method req = POST \<and> route_match ''/api/generate-poem'' (req_path req)
      then Some (generate_poem env (req_body req)) else None)"

text \<open>\<^verbatim>\<open>app.use((req, res) => { res.status(404).json(...) })\<close>: no path, no
  method, no call of \<^verbatim>\<open>next\<close>.\<close>

definition not_found_handler :: layer where
  "not_found_handler req =
     Some [Respond (JsonResponse 404
       (Failure (ascii ''Endpoint not found. Use POST /api/generate-poem.'') None))]"

text \<open>\<^verbatim>\<open>app.get("*", ...)\<close>: sends \<^verbatim>\<open>public/index.html\<close>.\<close>

definition spa_fallback :: layer where
  "spa_fallback req = (if reads (req_method req) then Some [Respond IndexDocument] else None)"

definition app :: "environment \<Rightarrow> request \<Rightarrow> event list" where
  "app env =
     run_stack
       [cors_layer, json_layer, static_layer env, health_route env, generate_poem_route env,
        not_found_handler, spa_fallback]"

text \<open>The keys of \<open>themeContexts\<close>.\<close>

definition recognized_themes :: "jsstring list" where
  "recognized_themes = map ascii [''lovelines'', ''moodverse'', ''soulscript'']"

text \<open>The two payloads of the generation route: the poem, and an error with one of
  the statuses of the interface.\<close>

definition validation_failure :: response where
  "validation_failure = JsonResponse 400
     (Failure (ascii ''Please provide your feelings or thoughts to generate a poem.'') None)"

definition is_success :: "response \<Rightarrow> bool" where
  "is_success r \<longleftrightarrow> (\<exists>poem th ts. r = JsonResponse 200 (Poem poem th ts))"

definition is_failure :: "response \<Rightarrow> bool" where
  "is_failure r \<longleftrightarrow> (\<exists>st msg ra. r = JsonResponse st (Failure msg ra) \<and> st \<in> {400, 429, 500, 503, 504})"

section \<open>Sample surroundings\<close>

text \<open>
  An answer of the remote service in the documented shape
  \<^verbatim>\<open>{candidates:[{content:{parts:[{text}]}}]}\<close>, and surroundings with a
  credential, a service that gives this answer to every prompt, and no static
  files.
\<close>

definition sample_answer :: "jsstring \<Rightarrow> jsval" where
  "sample_answer t =
     Data (JObj [(ascii ''candidates'',
       JArr [JObj [(ascii ''content'',
         JObj [(ascii ''parts'', JArr [JObj [(ascii ''text'', JStr t)]])])]])])"

definition sample_environment :: environment where
  "sample_environment =
     \<lparr> GEMINI_API_KEY = Some (ascii ''secret''),
       remote = (\<lambda>prompt. Resolved (sample_answer (ascii ''**Rain** falls\<newline>\<newline>on tin''))),
       now = ascii ''2024-05-01T12:00:00.000Z'',
       static_asset = (\<lambda>p. False) \<rparr>"

section \<open>Trimming\<close>

lemma is_white_newline: "is_white newline"
  by (simp add: is_white_def newline_def)

lemma dropWhile_keeps_solid_char:
  "\<exists>c \<in> set l. \<not> P c \<Longrightarrow> \<exists>c \<in> set (dropWhile P l). \<not> P c"
  by (induction l) auto

lemma trim_empty_iff: "trim l = [] \<longleftrightarrow> (\<forall>c \<in> set l. is_white c)"
proof
  assume "trim l = []"
  then have "\<forall>c \<in> set (dropWhile is_white l). is_white c"
    by (simp add: trim_def)
  then show "\<forall>c \<in> set l. is_white c"
    using dropWhile_keeps_solid_char [of l is_white] by blast
next
  assume "\<forall>c \<in> set l. is_white c"
  then show "trim l = []"
    by (auto simp: trim_def dest: set_dropWhileD)
qed

lemma nonblank_iff: "length (trim l) > 0 \<longleftrightarrow> (\<exists>c \<in> set l. \<not> is_white c)"
  using trim_empty_iff [of l] by auto

lemma set_trim: "set (trim s) \<subseteq> set s"
proof -
  have "set (trim s) \<subseteq> set (dropWhile is_white s)"
    unfolding trim_def using set_dropWhileD by fastforce
  then show ?thesis using set_dropWhileD by fastforce
qed

lemma last_dropWhile_keep: "dropWhile P xs \<noteq> [] \<Longrightarrow> last (dropWhile P xs) = last xs"
  by (induction xs) (auto split: if_splits)

lemma dropWhile_id: "xs = [] \<or> \<not> P (hd xs) \<Longrightarrow> dropWhile P xs = xs"
  by (cases xs) auto

lemma trim_fixed:
  assumes "s = [] \<or> (\<not> is_white (hd s) \<and> \<not> is_white (last s))"
  shows "trim s = s"
proof (cases "s = []")
  case True
  then show ?thesis by (simp add: trim_def)
next
  case False
  with assms have h: "\<not> is_white (hd s)" and l: "\<not> is_white (last s)" by auto
  have 1: "dropWhile is_white s = s" using h by (simp add: dropWhile_id)
  have "hd (rev s) = last s" using False by (simp add: hd_rev)
  then have 2: "dropWhile is_white (rev s) = rev s" using l by (simp add: dropWhile_id)
  show ?thesis by (simp add: trim_def 1 2)
qed

lemma trim_ends:
  "trim s = [] \<or> (\<not> is_white (hd (trim s)) \<and> \<not> is_white (last (trim s)))"
proof (cases "trim s = []")
  case True
  then show ?thesis by simp
next
  case False
  define u where "u = dropWhile is_white s"
  define v where "v = dropWhile is_white (rev u)"
  have t: "trim s = rev v" by (simp add: trim_def u_def v_def)
  with False have v: "v \<noteq> []" by simp
  then have u: "u \<noteq> []" by (auto simp: v_def)
  have "\<not> is_white (hd v)" using v unfolding v_def by (rule hd_dropWhile)
  then have a: "\<not> is_white (last (trim s))" using v by (simp add: t last_rev)
  have "last v = last (rev u)" using v unfolding v_def by (rule last_dropWhile_keep)
  also have "\<dots> = hd u" using u by (simp add: last_rev)
  finally have "hd (trim s) = hd u" using v by (simp add: t hd_rev)
  moreover have "\<not> is_white (hd u)" using u unfolding u_def by (rule hd_dropWhile)
  ultimately show ?thesis using a by simp
qed

lemma trim_trim: "trim (trim s) = trim s"
  using trim_ends [of s] by (rule trim_fixed)

section \<open>Splitting and joining lines\<close>

lemma split_lines_nonempty: "split_lines s \<noteq> []"
  by (induction s) (auto split: list.splits)

lemma join_lines_Cons:
  "join_lines (l # ls) = l @ (if ls = [] then [] else newline # join_lines ls)"
  by (cases ls) auto

lemma join_lines_snoc:
  "join_lines (ls @ [l]) = (if ls = [] then [] else join_lines ls @ [newline]) @ l"
  by (induction ls rule: join_lines.induct) auto

lemma join_split_lines: "join_lines (split_lines s) = s"
proof (induction s)
  case Nil
  show ?case by simp
next
  case (Cons c s)
  obtain l ls where sp: "split_lines s = l # ls"
    using split_lines_nonempty [of s] by (cases "split_lines s") auto
  show ?case
  proof (cases "c = newline")
    case True
    with Cons sp show ?thesis by simp
  next
    case False
    with sp have "join_lines (split_lines (c # s)) = c # join_lines (l # ls)"
      by (simp add: join_lines_Cons)
    with Cons sp show ?thesis by simp
  qed
qed

lemma split_lines_no_newline: "l \<in> set (split_lines s) \<Longrightarrow> newline \<notin> set l"
proof (induction s arbitrary: l)
  case Nil
  then show ?case by simp
next
  case (Cons c s)
  obtain k ks where sp: "split_lines s = k # ks"
    using split_lines_nonempty [of s] by (cases "split_lines s") auto
  with Cons show ?case by (auto split: if_splits)
qed

lemma split_lines_subset: "l \<in> set (split_lines s) \<Longrightarrow> set l \<subseteq> set s"
proof (induction s arbitrary: l)
  case Nil
  then show ?case by simp
next
  case (Cons c s)
  obtain k ks where sp: "split_lines s = k # ks"
    using split_lines_nonempty [of s] by (cases "split_lines s") auto
  with Cons show ?case by (fastforce split: if_splits)
qed

lemma split_lines_plain: "newline \<notin> set l \<Longrightarrow> split_lines l = [l]"
  by (induction l) auto

lemma split_lines_append:
  "newline \<notin> set l \<Longrightarrow> split_lines (l @ newline # s) = l # split_lines s"
  by (induction l) auto

lemma split_join_lines:
  "ls \<noteq> [] \<Longrightarrow> \<forall>l \<in> set ls. newline \<notin> set l \<Longrightarrow> split_lines (join_lines ls) = ls"
proof (induction ls rule: join_lines.induct)
  case 1
  then show ?case by simp
next
  case (2 l)
  then show ?case by (simp add: split_lines_plain)
next
  case (3 l k ks)
  then show ?case by (simp add: split_lines_append)
qed

lemma length_split_lines:
  "length (split_lines s) = Suc (length (filter (\<lambda>c. c = newline) s))"
proof (induction s)
  case Nil
  show ?case by simp
next
  case (Cons c s)
  obtain k ks where sp: "split_lines s = k # ks"
    using split_lines_nonempty [of s] by (cases "split_lines s") auto
  with Cons show ?case by auto
qed

lemma newlines_join_lines:
  "\<forall>l \<in> set ls. newline \<notin> set l \<Longrightarrow>
   length (filter (\<lambda>c. c = newline) (join_lines ls)) = length ls - 1"
proof (induction ls rule: join_lines.induct)
  case 1
  show ?case by simp
next
  case (2 l)
  then have "filter (\<lambda>c. c = newline) l = []" by (auto simp: filter_empty_conv)
  then show ?case by simp
next
  case (3 l k ks)
  then have "filter (\<lambda>c. c = newline) l = []" by (auto simp: filter_empty_conv)
  with 3 show ?case by simp
qed

lemma filter_dropWhile_le: "length (filter P (dropWhile Q xs)) \<le> length (filter P xs)"
  by (induction xs) auto

lemma newlines_trim:
  "length (filter P (trim s)) \<le> length (filter P s)"
proof -
  have "length (filter P (trim s)) = length (filter P (dropWhile is_white (rev (dropWhile is_white s))))"
    by (simp add: trim_def rev_filter [symmetric])
  also have "\<dots> \<le> length (filter P (rev (dropWhile is_white s)))"
    by (rule filter_dropWhile_le)
  also have "\<dots> = length (filter P (dropWhile is_white s))"
    by (simp add: rev_filter [symmetric])
  also have "\<dots> \<le> length (filter P s)"
    by (rule filter_dropWhile_le)
  finally show ?thesis .
qed

lemma set_join_lines: "set (join_lines ls) \<subseteq> insert newline (\<Union> (set ` set ls))"
  by (induction ls rule: join_lines.induct) auto

section \<open>What the cleaner keeps\<close>

lemma set_remove_double_asterisks: "set (remove_double_asterisks s) \<subseteq> set s"
  by (induction s rule: remove_double_asterisks.induct) auto

lemma asterisk_removed: "asterisk \<notin> set (remove_asterisks (remove_double_asterisks s))"
  by (simp add: remove_asterisks_def)

lemma match_ci_subset: "match_ci p s = Some r \<Longrightarrow> set r \<subseteq> set s"
  by (induction p s rule: match_ci.induct) (auto split: if_splits)

lemma lazy_dots_then_subset: "lazy_dots_then stop s = Some r \<Longrightarrow> set r \<subseteq> set s"
  by (induction s) (auto split: if_splits)

lemma match_alt_subset:
  assumes "\<And>r t. k r = Some t \<Longrightarrow> set t \<subseteq> set r"
  shows "match_alt ps k s = Some t \<Longrightarrow> set t \<subseteq> set s"
proof (induction ps)
  case Nil
  then show ?case by simp
next
  case (Cons p ps)
  show ?case
  proof (cases "match_ci p s")
    case None
    with Cons show ?thesis by simp
  next
    case (Some r)
    show ?thesis
    proof (cases "k r")
      case None
      with Some Cons show ?thesis by simp
    next
      case (Some u)
      with \<open>match_ci p s = Some r\<close> Cons.prems have "u = t" by simp
      with Some assms have "set t \<subseteq> set r" by blast
      with match_ci_subset [OF \<open>match_ci p s = Some r\<close>] show ?thesis by blast
    qed
  qed
qed

lemma set_remove_intro: "set (remove_intro s) \<subseteq> set s"
proof (cases "match_intro s")
  case None
  then show ?thesis by (simp add: remove_intro_def)
next
  case (Some t)
  have "set t \<subseteq> set s"
  proof (rule match_alt_subset [OF _ Some [unfolded match_intro_def]])
    fix r u
    assume "map_option (dropWhile is_white) (lazy_dots_then colon r) = Some u"
    then obtain w where w: "lazy_dots_then colon r = Some w" and u: "u = dropWhile is_white w"
      by auto
    from lazy_dots_then_subset [OF w] u show "set u \<subseteq> set r"
      using set_dropWhileD by fastforce
  qed
  with Some show ?thesis by (simp add: remove_intro_def)
qed

lemma set_remove_headings: "set (remove_headings s) \<subseteq> set s"
proof (cases "match_heading s")
  case None
  then show ?thesis by (simp add: remove_headings_def)
next
  case (Some t)
  have "set t \<subseteq> set s"
  proof (rule match_alt_subset [OF _ Some [unfolded match_heading_def]])
    fix r u
    assume "(case match_ci [colon] r of None \<Rightarrow> None | Some t \<Rightarrow> lazy_dots_then newline t) = Some u"
    then obtain w where w: "match_ci [colon] r = Some w" and u: "lazy_dots_then newline w = Some u"
      by (auto split: option.splits)
    from match_ci_subset [OF w] lazy_dots_then_subset [OF u] show "set u \<subseteq> set r"
      by blast
  qed
  with Some show ?thesis by (simp add: remove_headings_def)
qed

lemma cleanPoem_poem_lines: "cleanPoem x = trim (join_lines (poem_lines x))"
  by (simp add: cleanPoem_def poem_lines_def Let_def)

lemma poem_lines_length: "length (poem_lines x) \<le> 5"
  by (simp add: poem_lines_def Let_def)

lemma poem_lines_member:
  assumes "l \<in> set (poem_lines x)"
  shows "length (trim l) > 0" and "newline \<notin> set l" and "asterisk \<notin> set l"
proof -
  define t where "t = remove_headings (remove_intro (remove_asterisks (remove_double_asterisks (trim x))))"
  have "set (poem_lines x) \<subseteq> set (filter (\<lambda>line. length (trim line) > 0) (split_lines t))"
    by (auto simp: poem_lines_def Let_def t_def dest: in_set_takeD)
  with assms have l: "l \<in> set (split_lines t)" and nb: "length (trim l) > 0" by auto
  show "length (trim l) > 0" by (rule nb)
  show "newline \<notin> set l" using l by (rule split_lines_no_newline)
  have "set l \<subseteq> set t" using l by (rule split_lines_subset)
  also have "\<dots> \<subseteq> set (remove_asterisks (remove_double_asterisks (trim x)))"
    unfolding t_def using set_remove_headings set_remove_intro by blast
  finally show "asterisk \<notin> set l" using asterisk_removed by blast
qed

lemma cleanPoem_asterisk_free: "asterisk \<notin> set (cleanPoem x)"
proof -
  have "set (cleanPoem x) \<subseteq> insert newline (\<Union> (set ` set (poem_lines x)))"
    unfolding cleanPoem_poem_lines using set_trim set_join_lines by blast
  moreover have "asterisk \<noteq> newline" by (simp add: asterisk_def newline_def)
  ultimately show ?thesis
    using poem_lines_member(3) by auto
qed

lemma cleanPoem_line_count: "length (split_lines (cleanPoem x)) \<le> 5"
proof -
  have "length (filter (\<lambda>c. c = newline) (cleanPoem x))
          \<le> length (filter (\<lambda>c. c = newline) (join_lines (poem_lines x)))"
    unfolding cleanPoem_poem_lines by (rule newlines_trim)
  also have "\<dots> = length (poem_lines x) - 1"
    by (rule newlines_join_lines) (simp add: poem_lines_member(2))
  finally show ?thesis
    using poem_lines_length [of x] by (simp add: length_split_lines)
qed

section \<open>A second pass of the cleaner\<close>

lemma remove_double_asterisks_id:
  "asterisk \<notin> set s \<Longrightarrow> remove_double_asterisks s = s"
  by (induction s rule: remove_double_asterisks.induct) auto

lemma remove_asterisks_id: "asterisk \<notin> set s \<Longrightarrow> remove_asterisks s = s"
  by (auto simp: remove_asterisks_def filter_id_conv)

lemma solid_dropWhile: "solid l \<Longrightarrow> solid (dropWhile is_white l)"
  unfolding solid_def using dropWhile_keeps_solid_char [of l is_white] set_dropWhileD [of _ is_white l]
  by blast

lemma solid_rev: "solid (rev l) = solid l"
  by (simp add: solid_def)

lemma ltrim_join_lines:
  assumes "solid_lines ls"
  shows "\<exists>ls'. dropWhile is_white (join_lines ls) = join_lines ls' \<and> solid_lines ls'
            \<and> length ls' = length ls"
proof (cases ls)
  case Nil
  then show ?thesis using assms by auto
next
  case (Cons l rest)
  with assms have l: "solid l" and rest: "solid_lines rest" by (auto simp: solid_lines_def)
  from l obtain c where "c \<in> set l" "\<not> is_white c" by (auto simp: solid_def)
  then have "dropWhile is_white (join_lines (l # rest)) = join_lines (dropWhile is_white l # rest)"
    unfolding join_lines_Cons by (simp add: dropWhile_append1)
  moreover have "solid_lines (dropWhile is_white l # rest)"
    using solid_dropWhile [OF l] rest by (simp add: solid_lines_def)
  ultimately show ?thesis using Cons by fastforce
qed

lemma rtrim_join_lines:
  assumes "solid_lines ls"
  shows "\<exists>ls'. rev (dropWhile is_white (rev (join_lines ls))) = join_lines ls' \<and> solid_lines ls'
            \<and> length ls' = length ls"
proof (cases ls rule: rev_cases)
  case Nil
  then show ?thesis using assms by auto
next
  case (snoc front l)
  with assms have l: "solid l" and front: "solid_lines front" by (auto simp: solid_lines_def)
  define l' where "l' = rev (dropWhile is_white (rev l))"
  from l obtain c where "c \<in> set (rev l)" "\<not> is_white c" by (auto simp: solid_def)
  then have "rev (dropWhile is_white (rev (join_lines (front @ [l])))) = join_lines (front @ [l'])"
    unfolding join_lines_snoc l'_def by (simp add: dropWhile_append1)
  moreover have "solid l'"
    unfolding l'_def using solid_dropWhile [of "rev l"] l by (simp add: solid_rev)
  then have "solid_lines (front @ [l'])"
    using front by (simp add: solid_lines_def)
  ultimately show ?thesis using snoc by fastforce
qed

lemma trim_join_lines:
  assumes "solid_lines ls"
  shows "\<exists>ls'. trim (join_lines ls) = join_lines ls' \<and> solid_lines ls' \<and> length ls' = length ls"
proof -
  from ltrim_join_lines [OF assms] obtain ks
    where ks: "dropWhile is_white (join_lines ls) = join_lines ks" "solid_lines ks" "length ks = length ls"
    by blast
  from rtrim_join_lines [OF ks(2)] obtain ms
    where ms: "rev (dropWhile is_white (rev (join_lines ks))) = join_lines ms" "solid_lines ms"
      "length ms = length ks"
    by blast
  have "trim (join_lines ls) = join_lines ms" by (simp add: trim_def ks(1) ms(1))
  with ms ks show ?thesis by auto
qed

lemma solid_poem_lines: "solid_lines (poem_lines x)"
  unfolding solid_lines_def solid_def
  using poem_lines_member(1,2) nonblank_iff by blast

text \<open>The last three steps of the cleaner leave a trimmed text of at most 5 solid lines alone.\<close>

lemma relines_fixed:
  assumes "solid_lines ls" and "length ls \<le> 5"
  shows "(let lines0 = filter (\<lambda>line. length (trim line) > 0) (split_lines (join_lines ls))
          in (if length lines0 > 5 then take 5 lines0 else lines0)) = ls"
proof (cases "ls = []")
  case True
  then show ?thesis by (simp add: trim_def)
next
  case False
  from assms(1) have "\<forall>l \<in> set ls. newline \<notin> set l" by (simp add: solid_lines_def solid_def)
  with False have "split_lines (join_lines ls) = ls" by (rule split_join_lines)
  moreover have "filter (\<lambda>line. length (trim line) > 0) ls = ls"
    using assms(1) by (auto simp: filter_id_conv trim_empty_iff solid_lines_def solid_def)
  ultimately show ?thesis using assms(2) by simp
qed

lemma length_trim: "length (trim s) \<le> length s"
proof -
  have "length (trim s) \<le> length (dropWhile is_white s)"
    unfolding trim_def using length_dropWhile_le [of is_white "rev (dropWhile is_white s)"] by simp
  also have "\<dots> \<le> length s" by (rule length_dropWhile_le)
  finally show ?thesis .
qed

lemma match_ci_shorter: "match_ci p s = Some r \<Longrightarrow> length r \<le> length s"
  by (induction p s rule: match_ci.induct) (auto split: if_splits)

lemma lazy_dots_then_shorter: "lazy_dots_then stop s = Some r \<Longrightarrow> length r < length s"
  by (induction s) (auto split: if_splits)

lemma match_alt_shorter:
  assumes "\<And>r t. k r = Some t \<Longrightarrow> length t < length r"
  shows "match_alt ps k s = Some t \<Longrightarrow> length t < length s"
proof (induction ps)
  case Nil
  then show ?case by simp
next
  case (Cons p ps)
  show ?case
  proof (cases "match_ci p s")
    case None
    with Cons show ?thesis by simp
  next
    case (Some r)
    show ?thesis
    proof (cases "k r")
      case None
      with Some Cons show ?thesis by simp
    next
      case (Some u)
      with \<open>match_ci p s = Some r\<close> Cons.prems have "u = t" by simp
      with Some assms have "length t < length r" by blast
      with match_ci_shorter [OF \<open>match_ci p s = Some r\<close>] show ?thesis by simp
    qed
  qed
qed

lemma match_intro_shorter:
  assumes "match_intro s = Some t"
  shows "length t < length s"
proof (rule match_alt_shorter [OF _ assms [unfolded match_intro_def]])
  fix r u
  assume "map_option (dropWhile is_white) (lazy_dots_then colon r) = Some u"
  then obtain w where w: "lazy_dots_then colon r = Some w" and u: "u = dropWhile is_white w"
    by auto
  have "length u \<le> length w" unfolding u by (rule length_dropWhile_le)
  with lazy_dots_then_shorter [OF w] show "length u < length r" by simp
qed

lemma match_heading_shorter:
  assumes "match_heading s = Some t"
  shows "length t < length s"
proof (rule match_alt_shorter [OF _ assms [unfolded match_heading_def]])
  fix r u
  assume "(case match_ci [colon] r of None \<Rightarrow> None | Some t \<Rightarrow> lazy_dots_then newline t) = Some u"
  then obtain w where w: "match_ci [colon] r = Some w" and u: "lazy_dots_then newline w = Some u"
    by (auto split: option.splits)
  from match_ci_shorter [OF w] lazy_dots_then_shorter [OF u] show "length u < length r"
    by simp
qed

lemma remove_intro_fixed_iff: "remove_intro s = s \<longleftrightarrow> match_intro s = None"
  using match_intro_shorter [of s] by (auto simp: remove_intro_def split: option.splits)

lemma remove_headings_fixed_iff: "remove_headings s = s \<longleftrightarrow> match_heading s = None"
  using match_heading_shorter [of s] by (auto simp: remove_headings_def split: option.splits)

lemma length_remove_intro:
  "length (remove_intro s) \<le> length s" "remove_intro s \<noteq> s \<Longrightarrow> length (remove_intro s) < length s"
  using match_intro_shorter [of s] by (auto simp: remove_intro_def split: option.splits)

lemma length_remove_headings:
  "length (remove_headings s) \<le> length s"
  "remove_headings s \<noteq> s \<Longrightarrow> length (remove_headings s) < length s"
  using match_heading_shorter [of s] by (auto simp: remove_headings_def split: option.splits)

lemma length_join_lines: "length (join_lines ls) = sum_list (map length ls) + (length ls - 1)"
  by (induction ls rule: join_lines.induct) auto

lemma sum_list_filter_le: "sum_list (map f (filter P xs)) \<le> (sum_list (map f xs) :: nat)"
  by (induction xs) auto

lemma sum_list_take_le: "sum_list (map f (take n xs)) \<le> (sum_list (map f xs) :: nat)"
  by (induction xs arbitrary: n) (auto simp: take_Cons split: nat.splits intro: le_trans trans_le_add2)

lemma length_relines:
  "length (join_lines (if length (filter P (split_lines s)) > 5
                       then take 5 (filter P (split_lines s))
                       else filter P (split_lines s))) \<le> length s"
proof -
  define ls where "ls = split_lines s"
  define ks where "ks = (if length (filter P ls) > 5 then take 5 (filter P ls) else filter P ls)"
  have "sum_list (map length ks) \<le> sum_list (map length (filter P ls))"
    unfolding ks_def using sum_list_take_le [of length 5 "filter P ls"] by simp
  also have "\<dots> \<le> sum_list (map length ls)" by (rule sum_list_filter_le)
  finally have 1: "sum_list (map length ks) \<le> sum_list (map length ls)" .
  have "length ks \<le> length (filter P ls)" by (simp add: ks_def)
  also have "\<dots> \<le> length ls" by simp
  finally have 2: "length ks - 1 \<le> length ls - 1" by simp
  have "length (join_lines ks) \<le> length (join_lines ls)"
    unfolding length_join_lines using 1 2 by simp
  then show ?thesis unfolding ks_def ls_def join_split_lines .
qed

lemma cleanPoem_second_pass_shrinks:
  assumes "remove_intro (cleanPoem x) \<noteq> cleanPoem x \<or> remove_headings (cleanPoem x) \<noteq> cleanPoem x"
  shows "length (cleanPoem (cleanPoem x)) < length (cleanPoem x)"
proof -
  define y where "y = cleanPoem x"
  have t: "trim y = y" by (simp add: y_def cleanPoem_poem_lines trim_trim)
  have "asterisk \<notin> set y"
    using cleanPoem_asterisk_free [of x] by (simp add: y_def)
  then have a: "remove_asterisks (remove_double_asterisks y) = y"
    by (simp add: remove_double_asterisks_id remove_asterisks_id)
  have "length (cleanPoem y) \<le> length (join_lines (poem_lines y))"
    unfolding cleanPoem_poem_lines by (rule length_trim)
  also have "\<dots> \<le> length (remove_headings (remove_intro y))"
    by (simp only: poem_lines_def Let_def t a length_relines)
  finally have le: "length (cleanPoem y) \<le> length (remove_headings (remove_intro y))" .
  have "length (remove_headings (remove_intro y)) < length y"
  proof (cases "remove_intro y = y")
    case True
    with assms have "remove_headings y \<noteq> y" by (simp add: y_def)
    with True show ?thesis by (simp add: length_remove_headings(2))
  next
    case False
    then have "length (remove_intro y) < length y" by (rule length_remove_intro(2))
    with length_remove_headings(1) [of "remove_intro y"] show ?thesis by simp
  qed
  with le show ?thesis by (simp add: y_def)
qed

section \<open>Claims about the response cleaner\<close>

text \<open>
  C6. For every input string, the output of \<open>cleanPoem\<close> contains no asterisk
  and, split on newline, has at most 5 lines.
\<close>

theorem cleanPoem_no_asterisk_at_most_5_lines:
  "asterisk \<notin> set (cleanPoem x) \<and> length (split_lines (cleanPoem x)) \<le> 5"
  using cleanPoem_asterisk_free cleanPoem_line_count by blast

theorem cleanPoem_no_asterisk_at_most_5_lines_witness:
  "asterisk \<notin> set (cleanPoem (ascii ''*a*\<newline>b\<newline>**c**\<newline>d\<newline>e\<newline>f\<newline>g''))
   \<and> length (split_lines (cleanPoem (ascii ''*a*\<newline>b\<newline>**c**\<newline>d\<newline>e\<newline>f\<newline>g''))) \<le> 5"
  using cleanPoem_no_asterisk_at_most_5_lines
    [of "ascii ''*a*\<newline>b\<newline>**c**\<newline>d\<newline>e\<newline>f\<newline>g''"]
  by simp

text \<open>
  C2, amended. \<open>cleanPoem (cleanPoem x) = cleanPoem x\<close> for every text \<open>x\<close> whose
  cleaned text does not itself start with an introduction or a heading that the
  cleaner removes. Without that condition the claim fails, as the last theorem
  of this block shows: both removals are done once, at the start of the text, and
  what the first pass leaves may start with another preamble.
  The condition is the weakest possible: where it fails, the second pass gives a
  shorter text (\<open>cleanPoem_second_pass_shrinks\<close> above).
\<close>

theorem cleanPoem_idempotent_without_preamble:
  assumes "remove_intro (cleanPoem x) = cleanPoem x"
    and "remove_headings (cleanPoem x) = cleanPoem x"
  shows "cleanPoem (cleanPoem x) = cleanPoem x"
proof -
  define y where "y = cleanPoem x"
  from trim_join_lines [OF solid_poem_lines, of x] obtain ls
    where ls: "y = join_lines ls" "solid_lines ls" "length ls = length (poem_lines x)"
    by (auto simp: y_def cleanPoem_poem_lines)
  have len: "length ls \<le> 5" using ls(3) poem_lines_length [of x] by simp
  have t: "trim y = y" by (simp add: y_def cleanPoem_poem_lines trim_trim)
  have "asterisk \<notin> set y"
    using cleanPoem_asterisk_free [of x] by (simp add: y_def)
  then have a: "remove_asterisks (remove_double_asterisks y) = y"
    by (simp add: remove_double_asterisks_id remove_asterisks_id)
  have "poem_lines y = ls"
    using relines_fixed [OF ls(2) len] assms
    by (simp add: poem_lines_def t a y_def [symmetric] ls(1) [symmetric])
  then have "cleanPoem y = y" by (simp add: cleanPoem_poem_lines ls(1) [symmetric] t)
  then show ?thesis by (simp add: y_def)
qed

theorem cleanPoem_idempotent_without_preamble_witness:
  "remove_intro (cleanPoem (ascii '' **Roses** are red\<newline>\<newline>Violets are blue ''))
     = cleanPoem (ascii '' **Roses** are red\<newline>\<newline>Violets are blue '')
   \<and> remove_headings (cleanPoem (ascii '' **Roses** are red\<newline>\<newline>Violets are blue ''))
     = cleanPoem (ascii '' **Roses** are red\<newline>\<newline>Violets are blue '')
   \<and> cleanPoem (cleanPoem (ascii '' **Roses** are red\<newline>\<newline>Violets are blue ''))
     = cleanPoem (ascii '' **Roses** are red\<newline>\<newline>Violets are blue '')"
proof -
  have 1: "remove_intro (cleanPoem (ascii '' **Roses** are red\<newline>\<newline>Violets are blue ''))
     = cleanPoem (ascii '' **Roses** are red\<newline>\<newline>Violets are blue '')"
    by code_simp
  have 2: "remove_headings (cleanPoem (ascii '' **Roses** are red\<newline>\<newline>Violets are blue ''))
     = cleanPoem (ascii '' **Roses** are red\<newline>\<newline>Violets are blue '')"
    by code_simp
  from cleanPoem_idempotent_without_preamble [OF 1 2] 1 2 show ?thesis by simp
qed

theorem cleanPoem_not_idempotent:
  "cleanPoem (cleanPoem (ascii ''Here's a poem: Here is my heart: open''))
     \<noteq> cleanPoem (ascii ''Here's a poem: Here is my heart: open'')"
  by code_simp

text \<open>
  C3. \<open>cleanPoem\<close> does not remove a heading line that is not the first line of
  the text: here the second line, \<^verbatim>\<open>Title: My Poem\<close>, is still in the output.
\<close>

theorem cleanPoem_keeps_inner_heading:
  "cleanPoem (ascii ''Roses are red\<newline>Title: My Poem\<newline>Violets are blue'')
     = ascii ''Roses are red\<newline>Title: My Poem\<newline>Violets are blue''"
  by code_simp

section \<open>Claims about the prompt builder\<close>

text \<open>
  Where the theme is a string that names neither a key of \<open>themeContexts\<close> nor a
  member of \<^verbatim>\<open>Object.prototype\<close>, the prompt is the one of \<^verbatim>\<open>moodverse\<close>; where
  it names no member of \<^verbatim>\<open>Object.prototype\<close>, the prompt is a string that holds
  the input and ends with the instruction.
\<close>

lemma buildPrompt_unrecognized_default:
  assumes "t \<notin> set recognized_themes" and "t \<notin> set object_prototype_names"
  shows "buildPrompt userInput (Data (JStr t))
           = buildPrompt userInput (Data (JStr (ascii ''moodverse'')))"
  using assms
  by (simp add: buildPrompt_def and_then_def object_literal_get_def themeContexts_def recognized_themes_def)

lemma buildPrompt_embeds_input:
  assumes "t \<notin> set object_prototype_names"
  shows "\<exists>pre. buildPrompt userInput (Data (JStr t))
           = Inr (Data (JStr (pre @ userInput @ ascii ''\<newline>Write the poem now:'')))"
proof -
  have m: "ascii ''moodverse'' \<noteq> ascii ''lovelines''" by (simp add: ascii_def)
  show ?thesis
    using assms
    by (auto simp: buildPrompt_def and_then_def object_literal_get_def themeContexts_def m)
qed

text \<open>
  \<open>buildPrompt\<close> returns exactly when the theme has a property key. It has one
  when it is absent or a string; it has none, and the call throws, when it is an
  object with an own property \<^verbatim>\<open>toString\<close> or an array that holds one.
\<close>

lemma buildPrompt_returns_iff:
  "(\<exists>prompt. buildPrompt userInput theme = Inr prompt) \<longleftrightarrow> (\<exists>key. property_key theme = Inr key)"
  by (auto simp: buildPrompt_def and_then_def object_literal_get_def
           split: sum.splits option.splits)

lemma buildPrompt_throws_iff:
  "buildPrompt userInput theme = Inl e \<longleftrightarrow> property_key theme = Inl e"
  by (auto simp: buildPrompt_def and_then_def object_literal_get_def
           split: sum.splits option.splits)

lemma buildPrompt_returns_without_theme: "\<exists>prompt. buildPrompt userInput JUndefined = Inr prompt"
  by (simp add: buildPrompt_returns_iff)

lemma buildPrompt_returns_on_string: "\<exists>prompt. buildPrompt userInput (Data (JStr t)) = Inr prompt"
  by (simp add: buildPrompt_returns_iff)

lemma buildPrompt_throws_on_own_toString:
  "buildPrompt userInput (Data (JObj [(ascii ''toString'', JNum 0x3FF0000000000000)]))
     = Inl TypeError"
  "buildPrompt userInput (Data (JArr [JObj [(ascii ''toString'', JNum 0x3FF0000000000000)]]))
     = Inl TypeError"
  by (simp_all add: buildPrompt_throws_iff)

text \<open>
  C4. \<open>buildPrompt\<close> does not return the default theme's prompt for every
  unrecognized theme: \<^verbatim>\<open>themeContexts[theme]\<close> finds the members that the
  object literal inherits, which are truthy, so for the theme
  \<^verbatim>\<open>constructor\<close> the result is the built-in function and no string.
\<close>

theorem buildPrompt_inherited_member:
  "buildPrompt userInput (Data (JStr (ascii ''constructor'')))
     = Inr (JBuiltin (ascii ''constructor''))
   \<and> buildPrompt userInput (Data (JStr (ascii ''constructor'')))
       \<noteq> buildPrompt userInput (Data (JStr (ascii ''moodverse'')))"
  by (simp add: buildPrompt_def and_then_def object_literal_get_def themeContexts_def
        object_prototype_names_def ascii_def)

text \<open>
  C5. \<open>buildPrompt\<close> does not return a string for every theme string: for the
  theme \<^verbatim>\<open>toString\<close> the result is the inherited method, which neither holds
  the input nor ends with the instruction to write the poem now.
\<close>

theorem buildPrompt_not_a_string:
  "\<nexists>prompt. buildPrompt (ascii ''rain'') (Data (JStr (ascii ''toString'')))
             = Inr (Data (JStr prompt))"
  by (simp add: buildPrompt_def and_then_def object_literal_get_def themeContexts_def
        object_prototype_names_def ascii_def)

section \<open>The handler's traces\<close>

lemmas eval_defs = generate_poem_def generate_poem_try_def sample_environment_def sample_answer_def
  extract_text_def and_then_def buildPrompt_def object_literal_get_def themeContexts_def
  object_prototype_names_def Let_def

lemma get_field_total:
  assumes "get_field f body = Inr u"
  shows "\<exists>t. get_field g body = Inr t"
proof (cases body)
  case JUndefined
  with assms show ?thesis by simp
next
  case (JBuiltin n)
  then show ?thesis by simp
next
  case (Data d)
  with assms show ?thesis by (cases d) auto
qed

lemma responses_append: "responses (xs @ ys) = responses xs @ responses ys"
  by (induction xs rule: responses.induct) auto

lemma remote_posts_append: "remote_posts (xs @ ys) = remote_posts xs @ remote_posts ys"
  by (induction xs rule: remote_posts.induct) auto

lemma generate_poem_try_falsy:
  assumes "get_field F_userInput body = Inr u" and "\<not> truthy u"
  shows "generate_poem_try env body = ([Respond validation_failure], None)"
proof -
  from get_field_total [OF assms(1)] obtain t where "get_field F_theme body = Inr t" by blast
  with assms show ?thesis
    by (simp add: generate_poem_try_def validation_failure_def Let_def)
qed

lemma generate_poem_try_blank:
  assumes "get_field F_userInput body = Inr (Data (JStr s))" and "trim s = []"
  shows "generate_poem_try env body = ([Respond validation_failure], None)"
proof -
  from get_field_total [OF assms(1)] obtain t where "get_field F_theme body = Inr t" by blast
  with assms show ?thesis
    by (simp add: generate_poem_try_def validation_failure_def Let_def)
qed

lemma generate_poem_try_rejected:
  assumes "get_field F_userInput body = Inr (Data (JStr s))" and "trim s \<noteq> []"
    and "get_field F_theme body = Inr theme"
    and "GEMINI_API_KEY env = Some k" and "k \<noteq> []"
    and "buildPrompt s theme = Inr prompt"
    and "remote env prompt = Rejected resp code"
  shows "generate_poem_try env body = ([RemotePost prompt], Some (RequestError resp code))"
proof -
  from assms(2) have "s \<noteq> []" by (auto simp: trim_def)
  with assms show ?thesis by (simp add: generate_poem_try_def Let_def)
qed

text \<open>
  A theme without property key: \<open>buildPrompt\<close> throws, no call is made, and the
  \<^verbatim>\<open>catch\<close> block answers 500.
\<close>

lemma generate_poem_try_no_prompt:
  assumes "get_field F_userInput body = Inr (Data (JStr s))" and "trim s \<noteq> []"
    and "get_field F_theme body = Inr theme"
    and "GEMINI_API_KEY env = Some k" and "k \<noteq> []"
    and "buildPrompt s theme = Inl e"
  shows "generate_poem_try env body = ([], Some e)"
proof -
  from assms(2) have "s \<noteq> []" by (auto simp: trim_def)
  with assms show ?thesis by (simp add: generate_poem_try_def Let_def)
qed

lemma theme_without_key_answered_500:
  "generate_poem sample_environment
     (Data (JObj [(ascii ''userInput'', JStr (ascii ''rain'')),
                  (ascii ''theme'', JObj [(ascii ''toString'', JNum 0x3FF0000000000000)])]))
   = [ConsoleError (ascii ''Error generating poem:''),
      Respond (JsonResponse 500 (Failure (ascii ''An unexpected error occurred.'') None))]"
proof -
  have u: "get_field F_userInput
             (Data (JObj [(ascii ''userInput'', JStr (ascii ''rain'')),
                (ascii ''theme'', JObj [(ascii ''toString'', JNum 0x3FF0000000000000)])]))
           = Inr (Data (JStr (ascii ''rain'')))"
    by (simp add: ascii_def)
  have t: "trim (ascii ''rain'') \<noteq> []"
    by (simp add: trim_def ascii_def is_white_def)
  have th: "get_field F_theme
             (Data (JObj [(ascii ''userInput'', JStr (ascii ''rain'')),
                (ascii ''theme'', JObj [(ascii ''toString'', JNum 0x3FF0000000000000)])]))
           = Inr (Data (JObj [(ascii ''toString'', JNum 0x3FF0000000000000)]))"
    by (simp add: ascii_def)
  have k: "GEMINI_API_KEY sample_environment = Some (ascii ''secret'')"
    by (simp add: sample_environment_def)
  have n: "ascii ''secret'' \<noteq> []" by (simp add: ascii_def)
  show ?thesis
    using generate_poem_try_no_prompt [OF u t th k n buildPrompt_throws_on_own_toString(1)]
    by (simp add: generate_poem_def)
qed

lemma catch_one_failure: "\<exists>r. responses (generate_poem_catch e) = [r] \<and> is_failure r"
proof (cases e)
  case TypeError
  then show ?thesis by (simp add: is_failure_def)
next
  case FormatError
  then show ?thesis by (simp add: is_failure_def)
next
  case (RequestError resp code)
  show ?thesis
  proof (cases resp)
    case None
    with RequestError show ?thesis by (simp add: is_failure_def)
  next
    case (Some p)
    obtain status errorData where "p = (status, errorData)" by (cases p)
    with Some RequestError show ?thesis by (simp add: is_failure_def)
  qed
qed

lemma try_shape:
  assumes "generate_poem_try env body = (events, r)"
  shows "(r = None \<and> (\<exists>x. responses events = [x] \<and> (is_success x \<or> is_failure x)))
       \<or> (r \<noteq> None \<and> responses events = [])"
  using assms
  by (auto simp: generate_poem_try_def Let_def is_success_def is_failure_def
           split: sum.splits jsval.splits jsdata.splits if_splits option.splits remote_result.splits)

lemma catch_no_poem: "Respond (JsonResponse st (Poem poem th ts)) \<notin> set (generate_poem_catch e)"
proof (cases e)
  case (RequestError resp code)
  then show ?thesis by (cases resp) (auto split: if_splits)
qed auto

lemma try_poem_theme:
  assumes "generate_poem_try env body = (events, r)"
    and "Respond (JsonResponse st (Poem poem th ts)) \<in> set events"
  shows "get_field F_theme body = Inr th"
  using assms
  by (auto simp: generate_poem_try_def Let_def
           split: sum.splits jsval.splits jsdata.splits if_splits option.splits remote_result.splits)

section \<open>Claims about the generation route\<close>

text \<open>
  C7. A request to generate a poem whose \<^verbatim>\<open>userInput\<close> is absent, empty or
  only white space is answered 400 with the validation message, and that answer is
  the whole trace, whatever the surroundings: no call to the remote service, no
  prompt, and no complaint about a missing credential even when there is none.
\<close>

theorem blank_input_rejected_before_anything_else:
  assumes "get_field F_userInput body = Inr u"
    and "u = JUndefined \<or> (\<exists>s. u = Data (JStr s) \<and> trim s = [])"
  shows "generate_poem env body =
           [Respond (JsonResponse 400
              (Failure (ascii ''Please provide your feelings or thoughts to generate a poem.'') None))]
         \<and> remote_posts (generate_poem env body) = []"
proof -
  have "generate_poem_try env body = ([Respond validation_failure], None)"
    using assms generate_poem_try_falsy [of body u env] generate_poem_try_blank [of body _ env]
    by auto
  then show ?thesis by (simp add: generate_poem_def validation_failure_def)
qed

theorem blank_input_rejected_before_anything_else_witness:
  "generate_poem (sample_environment\<lparr>GEMINI_API_KEY := None\<rparr>)
       (Data (JObj [(ascii ''theme'', JStr (ascii ''lovelines''))]))
     = [Respond (JsonResponse 400
          (Failure (ascii ''Please provide your feelings or thoughts to generate a poem.'') None))]
   \<and> generate_poem (sample_environment\<lparr>GEMINI_API_KEY := None\<rparr>)
       (Data (JObj [(ascii ''userInput'', JStr [])]))
     = [Respond (JsonResponse 400
          (Failure (ascii ''Please provide your feelings or thoughts to generate a poem.'') None))]
   \<and> generate_poem (sample_environment\<lparr>GEMINI_API_KEY := None\<rparr>)
       (Data (JObj [(ascii ''userInput'', JStr (ascii '' \<newline>  ''))]))
     = [Respond (JsonResponse 400
          (Failure (ascii ''Please provide your feelings or thoughts to generate a poem.'') None))]"
proof -
  have a: "get_field F_userInput (Data (JObj [(ascii ''theme'', JStr (ascii ''lovelines''))])) = Inr JUndefined"
    by (simp add: ascii_def)
  have b: "get_field F_userInput (Data (JObj [(ascii ''userInput'', JStr [])])) = Inr (Data (JStr []))"
    by (simp add: ascii_def)
  have c: "get_field F_userInput (Data (JObj [(ascii ''userInput'', JStr (ascii '' \<newline>  ''))]))
             = Inr (Data (JStr (ascii '' \<newline>  '')))"
    by (simp add: ascii_def)
  have t0: "trim [] = []" by (simp add: trim_def)
  have t1: "trim (ascii '' \<newline>  '') = []" by (simp add: trim_def ascii_def is_white_def)
  from blank_input_rejected_before_anything_else [OF a, of "sample_environment\<lparr>GEMINI_API_KEY := None\<rparr>"]
    blank_input_rejected_before_anything_else [OF b, of "sample_environment\<lparr>GEMINI_API_KEY := None\<rparr>"]
    blank_input_rejected_before_anything_else [OF c, of "sample_environment\<lparr>GEMINI_API_KEY := None\<rparr>"]
    t0 t1
  show ?thesis by simp
qed

text \<open>
  C8. With a valid \<^verbatim>\<open>userInput\<close>, a credential and a prompt built (so that
  the remote call is made), a failed remote call is answered by its kind: remote status 400 gives 400, 401 and 403 give 500, 429
  gives 429 with \<^verbatim>\<open>retryAfter\<close> 10, 503 gives 503 with \<^verbatim>\<open>retryAfter\<close> 20,
  any other remote status gives 500; with no remote status, the code
  \<^verbatim>\<open>ECONNABORTED\<close> of a timeout gives 504 and anything else 500.
\<close>

theorem remote_failure_status:
  assumes "get_field F_userInput body = Inr (Data (JStr s))" and "trim s \<noteq> []"
    and "get_field F_theme body = Inr theme"
    and "GEMINI_API_KEY env = Some k" and "k \<noteq> []"
    and "buildPrompt s theme = Inr prompt"
    and "remote env prompt = Rejected resp code"
  shows "responses (generate_poem env body) =
    (case resp of
       Some (status, errorData) \<Rightarrow>
         if status = 400 then
           [JsonResponse 400 (Failure (ascii ''Invalid request to AI service.'') None)]
         else if status = 401 \<or> status = 403 then
           [JsonResponse 500 (Failure (ascii ''Authentication failed.'') None)]
         else if status = 429 then
           [JsonResponse 429 (Failure (ascii ''Too many requests.'') (Some 10))]
         else if status = 503 then
           [JsonResponse 503 (Failure (ascii ''Service unavailable.'') (Some 20))]
         else [JsonResponse 500 (Failure (ascii ''Failed to generate poem.'') None)]
     | None \<Rightarrow>
         if code = Some (ascii ''ECONNABORTED'') then
           [JsonResponse 504 (Failure (ascii ''Request timed out.'') None)]
         else [JsonResponse 500 (Failure (ascii ''An unexpected error occurred.'') None)])"
proof -
  have "generate_poem env body = RemotePost prompt # generate_poem_catch (RequestError resp code)"
    using generate_poem_try_rejected [OF assms] by (simp add: generate_poem_def)
  then show ?thesis
    by (cases resp) (auto simp: ECONNABORTED_def)
qed

theorem remote_failure_status_witness:
  "responses (generate_poem (sample_environment\<lparr>remote := (\<lambda>p. Rejected (Some (400, Data JNull)) None)\<rparr>)
       (Data (JObj [(ascii ''userInput'', JStr (ascii ''rain''))])))
     = [JsonResponse 400 (Failure (ascii ''Invalid request to AI service.'') None)]
   \<and> responses (generate_poem (sample_environment\<lparr>remote := (\<lambda>p. Rejected (Some (401, Data JNull)) None)\<rparr>)
       (Data (JObj [(ascii ''userInput'', JStr (ascii ''rain''))])))
     = [JsonResponse 500 (Failure (ascii ''Authentication failed.'') None)]
   \<and> responses (generate_poem (sample_environment\<lparr>remote := (\<lambda>p. Rejected (Some (403, Data JNull)) None)\<rparr>)
       (Data (JObj [(ascii ''userInput'', JStr (ascii ''rain''))])))
     = [JsonResponse 500 (Failure (ascii ''Authentication failed.'') None)]
   \<and> responses (generate_poem (sample_environment\<lparr>remote := (\<lambda>p. Rejected (Some (429, Data JNull)) None)\<rparr>)
       (Data (JObj [(ascii ''userInput'', JStr (ascii ''rain''))])))
     = [JsonResponse 429 (Failure (ascii ''Too many requests.'') (Some 10))]
   \<and> responses (generate_poem (sample_environment\<lparr>remote := (\<lambda>p. Rejected (Some (503, Data JNull)) None)\<rparr>)
       (Data (JObj [(ascii ''userInput'', JStr (ascii ''rain''))])))
     = [JsonResponse 503 (Failure (ascii ''Service unavailable.'') (Some 20))]
   \<and> responses (generate_poem (sample_environment\<lparr>remote := (\<lambda>p. Rejected (Some (404, Data JNull)) None)\<rparr>)
       (Data (JObj [(ascii ''userInput'', JStr (ascii ''rain''))])))
     = [JsonResponse 500 (Failure (ascii ''Failed to generate poem.'') None)]
   \<and> responses (generate_poem
         (sample_environment\<lparr>remote := (\<lambda>p. Rejected None (Some (ascii ''ECONNABORTED'')))\<rparr>)
       (Data (JObj [(ascii ''userInput'', JStr (ascii ''rain''))])))
     = [JsonResponse 504 (Failure (ascii ''Request timed out.'') None)]
   \<and> responses (generate_poem
         (sample_environment\<lparr>remote := (\<lambda>p. Rejected None (Some (ascii ''ENOTFOUND'')))\<rparr>)
       (Data (JObj [(ascii ''userInput'', JStr (ascii ''rain''))])))
     = [JsonResponse 500 (Failure (ascii ''An unexpected error occurred.'') None)]"
proof -
  have u: "get_field F_userInput (Data (JObj [(ascii ''userInput'', JStr (ascii ''rain''))]))
             = Inr (Data (JStr (ascii ''rain'')))"
    by (simp add: ascii_def)
  have t: "trim (ascii ''rain'') \<noteq> []"
    by (simp add: trim_def ascii_def is_white_def)
  have th: "get_field F_theme (Data (JObj [(ascii ''userInput'', JStr (ascii ''rain''))])) = Inr JUndefined"
    by (simp add: ascii_def)
  have k: "GEMINI_API_KEY (sample_environment\<lparr>remote := (\<lambda>p. Rejected resp code)\<rparr>)
             = Some (ascii ''secret'')" for resp code
    by (simp add: sample_environment_def)
  have n: "ascii ''secret'' \<noteq> []" by (simp add: ascii_def)
  have b: "buildPrompt (ascii ''rain'') JUndefined
             = Inr (Data (JStr (ascii ''You are an emotional poet. Write a deeply emotional poem (exactly 5 lines) that captures these feelings: rain\<newline>Write the poem now:'')))"
    by (simp add: buildPrompt_def and_then_def object_literal_get_def themeContexts_def
          object_prototype_names_def ascii_def)
  have r: "remote (sample_environment\<lparr>remote := (\<lambda>p. Rejected resp code)\<rparr>) prompt
             = Rejected resp code" for resp code prompt
    by simp
  have e: "ascii ''ENOTFOUND'' \<noteq> ascii ''ECONNABORTED''" by (simp add: ascii_def)
  note w = remote_failure_status [OF u t th k n b r]
  show ?thesis
    using w [of "Some (400, Data JNull)" None] w [of "Some (401, Data JNull)" None]
      w [of "Some (403, Data JNull)" None] w [of "Some (429, Data JNull)" None]
      w [of "Some (503, Data JNull)" None] w [of "Some (404, Data JNull)" None]
      w [of None "Some (ascii ''ECONNABORTED'')"] w [of None "Some (ascii ''ENOTFOUND'')"] e
    by simp
qed

text \<open>
  C9. Every request to generate a poem, whatever its body and the surroundings,
  gets exactly one response: the poem with status 200, or an error payload with
  one of the statuses 400, 429, 500, 503, 504. That holds whichever step fails:
  the validation, the credential check, the building of the prompt, the remote
  call, the test of the answer's shape or the cleaning.
\<close>

theorem exactly_one_response:
  "\<exists>r. responses (generate_poem env body) = [r] \<and> (is_success r \<or> is_failure r)"
proof -
  obtain events r where t: "generate_poem_try env body = (events, r)"
    by (cases "generate_poem_try env body")
  show ?thesis
  proof (cases r)
    case None
    with t try_shape [OF t] show ?thesis by (simp add: generate_poem_def)
  next
    case (Some e)
    with try_shape [OF t] have "responses events = []" by simp
    with t Some catch_one_failure [of e] show ?thesis
      by (auto simp: generate_poem_def responses_append)
  qed
qed

theorem exactly_one_response_witness:
  "(\<exists>r. responses (generate_poem sample_environment
            (Data (JObj [(ascii ''userInput'', JStr (ascii ''rain''))]))) = [r]
        \<and> (is_success r \<or> is_failure r))
   \<and> (\<exists>r. responses (generate_poem sample_environment
            (Data (JObj [(ascii ''userInput'', JNum 0x4014000000000000)]))) = [r]
        \<and> (is_success r \<or> is_failure r))
   \<and> (\<exists>r. responses (generate_poem sample_environment
            (Data (JObj [(ascii ''userInput'', JStr (ascii ''rain'')),
               (ascii ''theme'', JObj [(ascii ''toString'', JNum 0x3FF0000000000000)])]))) = [r]
        \<and> (is_success r \<or> is_failure r))"
  using exactly_one_response [of sample_environment
      "Data (JObj [(ascii ''userInput'', JStr (ascii ''rain''))])"]
    exactly_one_response [of sample_environment
      "Data (JObj [(ascii ''userInput'', JNum 0x4014000000000000)])"]
    exactly_one_response [of sample_environment
      "Data (JObj [(ascii ''userInput'', JStr (ascii ''rain'')),
         (ascii ''theme'', JObj [(ascii ''toString'', JNum 0x3FF0000000000000)])])"]
  by simp

text \<open>
  C10. The theme of a successful response is the theme that was read from the
  request: an unrecognized theme is echoed although the default prompt was used,
  and a request without theme gets a response without theme.
\<close>

theorem success_echoes_theme:
  assumes "Respond (JsonResponse st (Poem poem th ts)) \<in> set (generate_poem env body)"
  shows "get_field F_theme body = Inr th"
proof -
  obtain events r where t: "generate_poem_try env body = (events, r)"
    by (cases "generate_poem_try env body")
  with assms catch_no_poem have "Respond (JsonResponse st (Poem poem th ts)) \<in> set events"
    by (auto simp: generate_poem_def split: option.splits)
  with t show ?thesis by (rule try_poem_theme)
qed

theorem success_echoes_theme_witness:
  "Respond (JsonResponse 200
       (Poem (ascii ''Rain falls\<newline>on tin'') (Data (JStr (ascii ''haiku''))) (ascii ''2024-05-01T12:00:00.000Z'')))
     \<in> set (generate_poem sample_environment
         (Data (JObj [(ascii ''userInput'', JStr (ascii ''rain'')), (ascii ''theme'', JStr (ascii ''haiku''))])))
   \<and> get_field F_theme
         (Data (JObj [(ascii ''userInput'', JStr (ascii ''rain'')), (ascii ''theme'', JStr (ascii ''haiku''))]))
       = Inr (Data (JStr (ascii ''haiku'')))
   \<and> Respond (JsonResponse 200
       (Poem (ascii ''Rain falls\<newline>on tin'') JUndefined (ascii ''2024-05-01T12:00:00.000Z'')))
     \<in> set (generate_poem sample_environment (Data (JObj [(ascii ''userInput'', JStr (ascii ''rain''))])))
   \<and> get_field F_theme (Data (JObj [(ascii ''userInput'', JStr (ascii ''rain''))])) = Inr JUndefined"
proof -
  have c: "cleanPoem (ascii ''**Rain** falls\<newline>\<newline>on tin'') = ascii ''Rain falls\<newline>on tin''"
    by code_simp
  have t: "trim (ascii ''rain'') \<noteq> []"
    by (simp add: trim_def ascii_def is_white_def)
  have 1: "Respond (JsonResponse 200
       (Poem (ascii ''Rain falls\<newline>on tin'') (Data (JStr (ascii ''haiku''))) (ascii ''2024-05-01T12:00:00.000Z'')))
     \<in> set (generate_poem sample_environment
         (Data (JObj [(ascii ''userInput'', JStr (ascii ''rain'')), (ascii ''theme'', JStr (ascii ''haiku''))])))"
    using t by (simp add: eval_defs c) (simp add: ascii_def)
  have 2: "Respond (JsonResponse 200
       (Poem (ascii ''Rain falls\<newline>on tin'') JUndefined (ascii ''2024-05-01T12:00:00.000Z'')))
     \<in> set (generate_poem sample_environment (Data (JObj [(ascii ''userInput'', JStr (ascii ''rain''))])))"
    using t by (simp add: eval_defs c) (simp add: ascii_def)
  from success_echoes_theme [OF 1] success_echoes_theme [OF 2] 1 2 show ?thesis by simp
qed

section \<open>Claims about routing\<close>

lemma catch_json_only: "Respond r \<in> set (generate_poem_catch e) \<Longrightarrow> \<exists>st p. r = JsonResponse st p"
proof (cases e)
  case (RequestError resp code)
  assume "Respond r \<in> set (generate_poem_catch e)"
  with RequestError show ?thesis by (cases resp) (auto split: if_splits)
qed auto

lemma try_json_only:
  assumes "generate_poem_try env b = (events, t)" and "Respond r \<in> set events"
  shows "\<exists>st p. r = JsonResponse st p"
  using assms
  by (auto simp: generate_poem_try_def Let_def
           split: sum.splits jsval.splits jsdata.splits if_splits option.splits remote_result.splits)

lemma generate_poem_json_only:
  assumes "Respond r \<in> set (generate_poem env b)"
  shows "\<exists>st p. r = JsonResponse st p"
proof -
  obtain events t where t: "generate_poem_try env b = (events, t)"
    by (cases "generate_poem_try env b")
  with assms have "Respond r \<in> set events \<or> (\<exists>e. Respond r \<in> set (generate_poem_catch e))"
    by (auto simp: generate_poem_def split: option.splits)
  with try_json_only [OF t] catch_json_only show ?thesis by blast
qed

lemma spa_fallback_never_answers: "Respond IndexDocument \<notin> set (app env req)"
proof
  assume a: "Respond IndexDocument \<in> set (app env req)"
  have "app env req = [Respond NoContent]
      \<or> app env req = [Respond (StaticAsset (req_path req))]
      \<or> (\<exists>h. app env req = [Respond (JsonResponse 200 h)])
      \<or> app env req = generate_poem env (req_body req)
      \<or> (\<exists>f. app env req = [Respond (JsonResponse 404 f)])"
    by (simp add: app_def cors_layer_def json_layer_def static_layer_def health_route_def
          generate_poem_route_def not_found_handler_def)
  with a generate_poem_json_only [of IndexDocument env "req_body req"] show False by auto
qed

text \<open>
  C1. A GET of a path that is no route and that \<^verbatim>\<open>express.static\<close> does not
  serve is not answered with
  \<^verbatim>\<open>index.html\<close>: the handler registered with \<^verbatim>\<open>app.use\<close> before
  \<^verbatim>\<open>app.get("*")\<close> answers 404 to everything that reaches it, so the
  fallback never runs (\<open>spa_fallback_never_answers\<close>).
\<close>

theorem unmatched_path_gets_404:
  "app (env\<lparr>static_asset := (\<lambda>p. False)\<rparr>)
       \<lparr>req_method = GET, req_path = ascii ''/about'', req_body = Data (JObj [])\<rparr>
     = [Respond (JsonResponse 404
          (Failure (ascii ''Endpoint not found. Use POST /api/generate-poem.'') None))]"
  by (simp add: app_def cors_layer_def json_layer_def static_layer_def health_route_def
        generate_poem_route_def not_found_handler_def route_match_def reads_def ascii_def)

end
